theory Spec2Isabelle
  imports Complex_Main "HOL-Library.Word" "HOL-Library.Sublist" "HOL-Library.AList"
begin

section \<open>Strings of the host language\<close>

text \<open>
  A JavaScript string is a sequence of UTF-16 code units; \<open>value.length\<close> counts code
  units, the regular expressions of the source (none has the \<open>u\<close> flag) work on code
  units, and \<open>for (const ch of value)\<close> walks code points. String literals of the source
  are ASCII and are written \<open>lit ''...''\<close>.
\<close>

type_synonym jsstring = "16 word list"

definition lit :: "string \<Rightarrow> jsstring" where
  "lit s = map (\<lambda>c. of_nat (of_char c)) s"

text \<open>\<open>\d\<close> is \<open>[0-9]\<close>.\<close>

definition isDigit :: "16 word \<Rightarrow> bool" where
  "isDigit c = (0x30 \<le> c \<and> c \<le> 0x39)"

definition isUpper :: "16 word \<Rightarrow> bool" where
  "isUpper c = (0x41 \<le> c \<and> c \<le> 0x5A)"

definition isLower :: "16 word \<Rightarrow> bool" where
  "isLower c = (0x61 \<le> c \<and> c \<le> 0x7A)"

text \<open>
  \<open>\s\<close>, and the characters removed by \<open>trim()\<close>: the WhiteSpace and LineTerminator
  code points of ECMAScript (tab, LF, VT, FF, CR, space, U+00A0, U+1680, U+2000..U+200A,
  U+2028, U+2029, U+202F, U+205F, U+3000, U+FEFF).
\<close>

definition isWhiteSpace :: "16 word \<Rightarrow> bool" where
  "isWhiteSpace c =
     ((0x09 \<le> c \<and> c \<le> 0x0D) \<or> c = 0x20 \<or> c = 0xA0 \<or> c = 0x1680 \<or>
      (0x2000 \<le> c \<and> c \<le> 0x200A) \<or> c = 0x2028 \<or> c = 0x2029 \<or> c = 0x202F \<or>
      c = 0x205F \<or> c = 0x3000 \<or> c = 0xFEFF)"

text \<open>
  Matching under the \<open>i\<close> flag without the \<open>u\<close> flag compares canonicalised code
  units. A code unit from 128 on never canonicalises to an ASCII one, so for the ASCII
  patterns of the source the canonical form is the ASCII upper-case letter.
\<close>

definition canonicalize :: "16 word \<Rightarrow> 16 word" where
  "canonicalize c = (if isLower c then c - 0x20 else c)"

text \<open>The class \<open>[0-9a-z]\<close> under the \<open>i\<close> flag.\<close>

definition isAlnum :: "16 word \<Rightarrow> bool" where
  "isAlnum c = (isDigit c \<or> isLower c \<or> isUpper c)"

text \<open>\<open>s.includes(t)\<close>: \<open>t\<close> occurs in \<open>s\<close> as a contiguous run of code units.\<close>

fun includes_str :: "jsstring \<Rightarrow> jsstring \<Rightarrow> bool" where
  "includes_str [] t = (t = [])"
| "includes_str (c # cs) t = (prefix t (c # cs) \<or> includes_str cs t)"

text \<open>\<open>s.trim()\<close>.\<close>

definition trim :: "jsstring \<Rightarrow> jsstring" where
  "trim s = rev (dropWhile isWhiteSpace (rev (dropWhile isWhiteSpace s)))"

text \<open>
  \<open>s.split(/\s+/)\<close> on a non-empty string: the scan of RegExp.prototype[@@split]. The
  piece collected since the last separator is \<open>piece\<close>; at a white-space unit the
  pattern matches the whole run, the piece is emitted and the scan resumes after the
  run; at the end the last piece is emitted.
\<close>

function split_ws :: "jsstring \<Rightarrow> jsstring \<Rightarrow> jsstring list" where
  "split_ws piece [] = [piece]"
| "split_ws piece (c # cs) =
     (if isWhiteSpace c then piece # split_ws [] (dropWhile isWhiteSpace cs)
      else split_ws (piece @ [c]) cs)"
  by pat_completeness auto
termination
  by (relation "measure (\<lambda>(piece, s). length s)")
     (auto simp: le_imp_less_Suc length_dropWhile_le)

text \<open>
  The string iterator: a high surrogate followed by a low surrogate is one element of
  two code units, every other code unit is an element of its own.
\<close>

definition isHighSurrogate :: "16 word \<Rightarrow> bool" where
  "isHighSurrogate c = (0xD800 \<le> c \<and> c \<le> 0xDBFF)"

definition isLowSurrogate :: "16 word \<Rightarrow> bool" where
  "isLowSurrogate c = (0xDC00 \<le> c \<and> c \<le> 0xDFFF)"

fun codePoints :: "jsstring \<Rightarrow> jsstring list" where
  "codePoints [] = []"
| "codePoints [c] = [[c]]"
| "codePoints (c # d # cs) =
     (if isHighSurrogate c \<and> isLowSurrogate d then [c, d] # codePoints cs
      else [c] # codePoints (d # cs))"

section \<open>The host's built-ins\<close>

text \<open>
  A JavaScript number, as far as the source uses one: NaN, the two infinities, or a
  finite value. Lengths and word counts are compared with finite values exactly.
\<close>

datatype jsnum = NaN | PosInfinity | NegInfinity | Finite rat

fun isFinite :: "jsnum \<Rightarrow> bool" where
  "isFinite (Finite x) = True"
| "isFinite _ = False"

text \<open>
  The source calls three functions it does not define: the SHA-256 digest of Node's
  \<open>crypto\<close>, \<open>String.prototype.toLowerCase\<close> (the Unicode case mapping) and
  \<open>Number\<close> applied to a string (the numeric-literal grammar and rounding to a double).
  They are parameters of the model; every theorem below holds for any of them.
\<close>

record runtime =
  sha256Hex :: "jsstring \<Rightarrow> jsstring"
  toLowerCase :: "jsstring \<Rightarrow> jsstring"
  Number :: "jsstring \<Rightarrow> jsnum"

section \<open>Analyzer\<close>

record analysis =
  string_f :: jsstring
  length_f :: nat
  isPalindrome :: bool
  wordCount :: nat
  uniqueCharacters :: nat
  characterFrequency :: "(jsstring \<times> nat) list"
  sha256 :: jsstring

text \<open>
  \<open>s.replace(/[^0-9a-z]/gi, "").toLowerCase()\<close>: every code unit matching the negated
  class is replaced by the empty string, the rest is lower-cased.
\<close>

definition nonAlnum :: "16 word \<Rightarrow> bool" where
  "nonAlnum c = (\<not> isAlnum c)"

definition sanitizeForPalindrome :: "runtime \<Rightarrow> jsstring \<Rightarrow> jsstring" where
  "sanitizeForPalindrome rt s = toLowerCase rt (filter (\<lambda>c. \<not> nonAlnum c) s)"

text \<open>\<open>value.trim().length === 0 ? [] : value.trim().split(/\s+/)\<close>.\<close>

definition words :: "jsstring \<Rightarrow> jsstring list" where
  "words v = (if length (trim v) = 0 then [] else split_ws [] (trim v))"

text \<open>\<open>cleaned.split("").reverse().join("")\<close>.\<close>

definition reversed :: "jsstring \<Rightarrow> jsstring" where
  "reversed s = concat (rev (map (\<lambda>c. [c]) s))"

text \<open>
  The frequency object, as the list of its own properties. One step is
  \<open>characterFrequency[ch] = (characterFrequency[ch] || 0) + 1\<close>: an absent key reads as
  \<open>undefined\<close>, and \<open>undefined || 0\<close> and \<open>0 || 0\<close> are both 0. The order in which
  an object enumerates its keys is not modelled (no claim depends on it).
\<close>

definition countChar :: "(jsstring \<times> nat) list \<Rightarrow> jsstring \<Rightarrow> (jsstring \<times> nat) list" where
  "countChar freq ch =
     AList.update ch ((case map_of freq ch of None \<Rightarrow> 0 | Some n \<Rightarrow> n) + 1) freq"

definition analyse :: "runtime \<Rightarrow> jsstring \<Rightarrow> analysis" where
  "analyse rt v =
     (let cleaned = sanitizeForPalindrome rt v;
          freq = foldl countChar [] (codePoints v)
      in \<lparr> string_f = v,
           length_f = length v,
           isPalindrome = (length cleaned > 0 \<and> cleaned = reversed cleaned),
           wordCount = length (words v),
           uniqueCharacters = length (map fst freq),
           characterFrequency = freq,
           sha256 = sha256Hex rt v \<rparr>)"

section \<open>Store\<close>

text \<open>
  \<open>const store = new Map()\<close>: a Map keeps its entries in insertion order and compares
  string keys by their code units. \<open>set\<close> on an absent key appends the entry, on a
  present key it replaces the value in place.
\<close>

type_synonym store = "(jsstring \<times> analysis) list"

definition store_has :: "store \<Rightarrow> jsstring \<Rightarrow> bool" where
  "store_has st k = (map_of st k \<noteq> None)"

definition store_get :: "store \<Rightarrow> jsstring \<Rightarrow> analysis option" where
  "store_get st k = map_of st k"

definition store_set :: "store \<Rightarrow> jsstring \<Rightarrow> analysis \<Rightarrow> store" where
  "store_set st k v = AList.update k v st"

definition store_delete :: "store \<Rightarrow> jsstring \<Rightarrow> store" where
  "store_delete st k = AList.delete k st"

text \<open>\<open>Array.from(store.values())\<close>.\<close>

definition store_values :: "store \<Rightarrow> analysis list" where
  "store_values st = map snd st"

section \<open>Requests and responses\<close>

text \<open>The body as \<open>bodyParser.json()\<close> leaves it in \<open>req.body\<close>.\<close>

datatype json =
    JNull
  | JBool bool
  | JNumber rat
  | JString jsstring
  | JArray "json list"
  | JObject "(jsstring \<times> json) list"

text \<open>
  \<open>Object.prototype.hasOwnProperty.call(payload, "value")\<close>. The own properties of an
  array or of a primitive are indices and \<open>length\<close>, never \<open>value\<close>.
\<close>

fun hasOwnValue :: "json \<Rightarrow> bool" where
  "hasOwnValue (JObject kvs) = (map_of kvs (lit ''value'') \<noteq> None)"
| "hasOwnValue _ = False"

text \<open>
  \<open>payload.value\<close>, with \<open>None\<close> for \<open>undefined\<close>. When a key is repeated in the
  JSON text the last occurrence is the property's value.
\<close>

fun getValue :: "json \<Rightarrow> json option" where
  "getValue (JObject kvs) = map_of (rev kvs) (lit ''value'')"
| "getValue _ = None"

text \<open>The values that \<open>req.body || {}\<close> replaces by the empty object.\<close>

fun falsy :: "json \<Rightarrow> bool" where
  "falsy JNull = True"
| "falsy (JBool b) = (\<not> b)"
| "falsy (JNumber x) = (x = 0)"
| "falsy (JString s) = (s = [])"
| "falsy _ = False"

datatype http_method = GET | POST | DELETE

text \<open>
  A request after Express has parsed it: the method, the path as its percent-decoded
  segments, the query parameters (each given once, so each is a string) and the body
  (\<open>None\<close> for \<open>undefined\<close>).
\<close>

record request =
  req_method :: http_method
  req_path :: "jsstring list"
  req_query :: "string \<Rightarrow> jsstring option"
  req_body :: "json option"

text \<open>
  What a response carries: \<open>{error: message}\<close>, one record, \<open>{count, data}\<close>, nothing
  (\<open>send()\<close>), or the HTML page of Express's final handler.
\<close>

datatype resbody =
    ErrorBody string
  | RecordBody analysis
  | ListBody nat "analysis list"
  | NoBody
  | HtmlBody

record response =
  status :: nat
  body :: resbody

definition json_error :: "nat \<Rightarrow> string \<Rightarrow> response" where
  "json_error code msg = \<lparr> status = code, body = ErrorBody msg \<rparr>"

text \<open>\<open>res.status(200).json({ count: results.length, data: results })\<close>.\<close>

definition json_list :: "analysis list \<Rightarrow> response" where
  "json_list results = \<lparr> status = 200, body = ListBody (length results) results \<rparr>"

section \<open>Handlers\<close>

text \<open>\<open>app.post("/strings")\<close> of server.js.\<close>

definition post_strings :: "runtime \<Rightarrow> json option \<Rightarrow> store \<Rightarrow> response \<times> store" where
  "post_strings rt payload st =
     (case payload of
        None \<Rightarrow> (json_error 400 ''Missing 'value' field'', st)
      | Some p \<Rightarrow>
          if p = JNull \<or> \<not> hasOwnValue p then (json_error 400 ''Missing 'value' field'', st)
          else (case getValue p of
                  Some (JString v) \<Rightarrow>
                    if store_has st v then (json_error 409 ''String already exists'', st)
                    else (let a = analyse rt v
                          in (\<lparr> status = 201, body = RecordBody a \<rparr>, store_set st v a))
                | _ \<Rightarrow> (json_error 422 (CHR 0x27 # ''value' must be a string''), st)))"

text \<open>
  \<open>app.post("/api/v1/strings")\<close> of the second file:
  \<open>const { value } = req.body || {}\<close>, then the three checks.
\<close>

definition post_api_v1_strings :: "runtime \<Rightarrow> json option \<Rightarrow> store \<Rightarrow> response \<times> store" where
  "post_api_v1_strings rt payload st =
     (let value = (case payload of
                     None \<Rightarrow> None
                   | Some p \<Rightarrow> if falsy p then None else getValue p)
      in case value of
           None \<Rightarrow> (json_error 400 ''Missing 'value' field'', st)
         | Some (JString v) \<Rightarrow>
             if store_has st v then (json_error 409 ''String already exists'', st)
             else (let a = analyse rt v
                   in (\<lparr> status = 201, body = RecordBody a \<rparr>, store_set st v a))
         | Some _ \<Rightarrow> (json_error 422 (CHR 0x27 # ''value' must be a string''), st))"

text \<open>
  \<open>app.get("/strings/:value")\<close>, the same in both files. \<open>req.params.value\<close> is
  \<open>None\<close> when the route has no such parameter; the Map then has no such key.
\<close>

definition get_string :: "jsstring option \<Rightarrow> store \<Rightarrow> response \<times> store" where
  "get_string value st =
     (case value of
        None \<Rightarrow> (json_error 404 ''String not found'', st)
      | Some v \<Rightarrow>
          (case store_get st v of
             None \<Rightarrow> (json_error 404 ''String not found'', st)
           | Some a \<Rightarrow> (\<lparr> status = 200, body = RecordBody a \<rparr>, st)))"

text \<open>\<open>app.delete("/strings/:value")\<close>, the same in both files.\<close>

definition delete_string :: "jsstring option \<Rightarrow> store \<Rightarrow> response \<times> store" where
  "delete_string value st =
     (case value of
        None \<Rightarrow> (json_error 404 ''String not found'', st)
      | Some v \<Rightarrow>
          if \<not> store_has st v then (json_error 404 ''String not found'', st)
          else (\<lparr> status = 204, body = NoBody \<rparr>, store_delete st v))"

subsection \<open>List and filter\<close>

text \<open>
  \<open>app.get("/strings")\<close>, the same in both files. Each block of the handler either
  answers 400 and returns, or narrows \<open>results\<close>. With string parameters nothing in the
  \<open>try\<close> block throws, so the \<open>catch\<close> branch is not reached.
\<close>

definition by_isPalindrome :: "jsstring option \<Rightarrow> analysis list \<Rightarrow> response + analysis list" where
  "by_isPalindrome p results =
     (case p of
        None \<Rightarrow> Inr results
      | Some v \<Rightarrow>
          if v \<noteq> lit ''true'' \<and> v \<noteq> lit ''false''
          then Inl (json_error 400 (''isPalindrome must be 'true' or 'false'' @ [CHR 0x27]))
          else (let want = (v = lit ''true'')
                in Inr (filter (\<lambda>r. isPalindrome r = want) results)))"

definition by_minLength :: "runtime \<Rightarrow> jsstring option \<Rightarrow> analysis list \<Rightarrow> response + analysis list" where
  "by_minLength rt p results =
     (case p of
        None \<Rightarrow> Inr results
      | Some v \<Rightarrow>
          (case Number rt v of
             Finite n \<Rightarrow> Inr (filter (\<lambda>r. of_nat (length_f r) \<ge> n) results)
           | _ \<Rightarrow> Inl (json_error 400 ''minLength must be a number'')))"

definition by_maxLength :: "runtime \<Rightarrow> jsstring option \<Rightarrow> analysis list \<Rightarrow> response + analysis list" where
  "by_maxLength rt p results =
     (case p of
        None \<Rightarrow> Inr results
      | Some v \<Rightarrow>
          (case Number rt v of
             Finite n \<Rightarrow> Inr (filter (\<lambda>r. of_nat (length_f r) \<le> n) results)
           | _ \<Rightarrow> Inl (json_error 400 ''maxLength must be a number'')))"

definition by_wordCount :: "runtime \<Rightarrow> jsstring option \<Rightarrow> analysis list \<Rightarrow> response + analysis list" where
  "by_wordCount rt p results =
     (case p of
        None \<Rightarrow> Inr results
      | Some v \<Rightarrow>
          (case Number rt v of
             Finite n \<Rightarrow> Inr (filter (\<lambda>r. of_nat (wordCount r) = n) results)
           | _ \<Rightarrow> Inl (json_error 400 ''wordCount must be a number'')))"

definition by_contains :: "jsstring option \<Rightarrow> analysis list \<Rightarrow> analysis list" where
  "by_contains p results =
     (case p of
        None \<Rightarrow> results
      | Some v \<Rightarrow> filter (\<lambda>r. includes_str (string_f r) v) results)"

definition get_strings :: "runtime \<Rightarrow> (string \<Rightarrow> jsstring option) \<Rightarrow> store \<Rightarrow> response \<times> store" where
  "get_strings rt query st =
     (case by_isPalindrome (query ''isPalindrome'') (store_values st) of
        Inl e \<Rightarrow> (e, st)
      | Inr r1 \<Rightarrow>
     (case by_minLength rt (query ''minLength'') r1 of
        Inl e \<Rightarrow> (e, st)
      | Inr r2 \<Rightarrow>
     (case by_maxLength rt (query ''maxLength'') r2 of
        Inl e \<Rightarrow> (e, st)
      | Inr r3 \<Rightarrow>
     (case by_wordCount rt (query ''wordCount'') r3 of
        Inl e \<Rightarrow> (e, st)
      | Inr r4 \<Rightarrow> (json_list (by_contains (query ''contains'') r4), st)))))"

subsection \<open>Natural-language query\<close>

text \<open>
  \<open>lower.match(re)\<close> for a pattern without the \<open>g\<close> flag: the pattern is tried at
  each start position from the left, and the first position where it matches decides.
  \<open>pat\<close> is the pattern tried at the start of its argument.
\<close>

fun regex_search :: "(jsstring \<Rightarrow> 'a option) \<Rightarrow> jsstring \<Rightarrow> 'a option" where
  "regex_search pat [] = pat []"
| "regex_search pat (c # cs) =
     (case pat (c # cs) of Some m \<Rightarrow> Some m | None \<Rightarrow> regex_search pat cs)"

text \<open>
  \<open>/longer than (\d+)/\<close> and \<open>/shorter than (\d+)/\<close> at a position: the literal, then
  the longest run of digits, which must not be empty; the result is the group \<open>m[1]\<close>.
\<close>

definition digits_after :: "jsstring \<Rightarrow> jsstring \<Rightarrow> jsstring option" where
  "digits_after p s =
     (if prefix p s
      then (let ds = takeWhile isDigit (drop (length p) s)
            in if ds = [] then None else Some ds)
      else None)"

definition match_longer :: "jsstring \<Rightarrow> jsstring option" where
  "match_longer lower = regex_search (digits_after (lit ''longer than '')) lower"

definition match_shorter :: "jsstring \<Rightarrow> jsstring option" where
  "match_shorter lower = regex_search (digits_after (lit ''shorter than '')) lower"

text \<open>
  \<open>/contains ["']?([a-z0-9\s\-\_]+)["']?/i\<close> at a position. The literal is compared
  up to case. The optional quote is taken first when one is there; if no token unit
  follows it, the matcher backtracks and tries without it. The group is the longest run
  of token units, and the closing quote is optional, so nothing after the group can
  fail.
\<close>

definition isQuote :: "16 word \<Rightarrow> bool" where
  "isQuote c = (c = 0x22 \<or> c = 0x27)"

definition isTokenUnit :: "16 word \<Rightarrow> bool" where
  "isTokenUnit c = (isLower c \<or> isUpper c \<or> isDigit c \<or> isWhiteSpace c \<or> c = 0x2D \<or> c = 0x5F)"

definition contains_at :: "jsstring \<Rightarrow> jsstring option" where
  "contains_at s =
     (let p = lit ''contains ''
      in if length p \<le> length s \<and> map canonicalize (take (length p) s) = map canonicalize p
         then (let rest = drop (length p) s;
                   quoted = (case rest of
                               [] \<Rightarrow> []
                             | c # cs \<Rightarrow> if isQuote c then takeWhile isTokenUnit cs else []);
                   bare = takeWhile isTokenUnit rest
               in if quoted \<noteq> [] then Some quoted
                  else if bare \<noteq> [] then Some bare
                  else None)
         else None)"

definition match_contains :: "jsstring \<Rightarrow> jsstring option" where
  "match_contains lower = regex_search contains_at lower"

text \<open>
  \<open>app.get("/strings/query")\<close> and \<open>app.get("/api/v1/strings/filter-by-natural-language")\<close>:
  the same body in both files. \<open>!q\<close> holds for \<open>undefined\<close> and for the empty string.
\<close>

definition get_strings_query :: "runtime \<Rightarrow> (string \<Rightarrow> jsstring option) \<Rightarrow> store \<Rightarrow> response \<times> store" where
  "get_strings_query rt query st =
     (case query ''q'' of
        None \<Rightarrow> (json_error 400 (''Missing query parameter 'q'' @ [CHR 0x27]), st)
      | Some q \<Rightarrow>
          if q = [] then (json_error 400 (''Missing query parameter 'q'' @ [CHR 0x27]), st)
          else
            (let lower = toLowerCase rt q;
                 results = store_values st
             in if includes_str lower (lit ''palind'')
                then (json_list (filter (\<lambda>r. isPalindrome r) results), st)
                else if includes_str lower (lit ''single word'') \<or>
                        includes_str lower (lit ''single-word'')
                then (json_list (filter (\<lambda>r. wordCount r = 1) results), st)
                else
                  (case match_longer lower of
                     Some ds \<Rightarrow>
                       (case Number rt ds of
                          Finite n \<Rightarrow>
                            (json_list (filter (\<lambda>r. of_nat (length_f r) > n) results), st)
                        | _ \<Rightarrow> (json_error 422 ''Invalid number in query'', st))
                   | None \<Rightarrow>
                  (case match_shorter lower of
                     Some ds \<Rightarrow>
                       (case Number rt ds of
                          Finite n \<Rightarrow>
                            (json_list (filter (\<lambda>r. of_nat (length_f r) < n) results), st)
                        | _ \<Rightarrow> (json_error 422 ''Invalid number in query'', st))
                   | None \<Rightarrow>
                  (case match_contains lower of
                     Some substr \<Rightarrow>
                       (json_list
                          (filter (\<lambda>r. includes_str (toLowerCase rt (string_f r))
                                                     (toLowerCase rt substr)) results), st)
                   | None \<Rightarrow> (json_error 400 ''Could not interpret query'', st))))))"

section \<open>Router\<close>

text \<open>
  Express keeps the routes in the order of the \<open>app.get\<close>, \<open>app.post\<close> and
  \<open>app.delete\<close> calls and runs the first one whose method and path pattern match the
  request. Every handler of the source answers and never calls \<open>next()\<close>, so no later
  route sees the request. A fixed segment matches up to case (routing is not
  case-sensitive by default), a parameter matches any non-empty segment.
\<close>

datatype segment = Fixed string | Param string

fun match_path :: "segment list \<Rightarrow> jsstring list \<Rightarrow> (string \<times> jsstring) list option" where
  "match_path [] [] = Some []"
| "match_path (Fixed f # ps) (x # xs) =
     (if map canonicalize (lit f) = map canonicalize x then match_path ps xs else None)"
| "match_path (Param n # ps) (x # xs) =
     (if x = [] then None
      else (case match_path ps xs of None \<Rightarrow> None | Some params \<Rightarrow> Some ((n, x) # params)))"
| "match_path _ _ = None"

datatype endpoint =
    Create_server_js
  | Create_part_000
  | GetByValue
  | ListFilter
  | NaturalLanguage
  | Delete

fun handle :: "endpoint \<Rightarrow> runtime \<Rightarrow> request \<Rightarrow> (string \<times> jsstring) list \<Rightarrow> store \<Rightarrow> response \<times> store" where
  "handle Create_server_js rt req params st = post_strings rt (req_body req) st"
| "handle Create_part_000 rt req params st = post_api_v1_strings rt (req_body req) st"
| "handle GetByValue rt req params st = get_string (map_of params ''value'') st"
| "handle ListFilter rt req params st = get_strings rt (req_query req) st"
| "handle NaturalLanguage rt req params st = get_strings_query rt (req_query req) st"
| "handle Delete rt req params st = delete_string (map_of params ''value'') st"

type_synonym route = "http_method \<times> segment list \<times> endpoint"

text \<open>A request that no route matches gets the 404 page of Express's final handler.\<close>

fun dispatch :: "route list \<Rightarrow> runtime \<Rightarrow> request \<Rightarrow> store \<Rightarrow> response \<times> store" where
  "dispatch [] rt req st = (\<lparr> status = 404, body = HtmlBody \<rparr>, st)"
| "dispatch ((m, pattern, ep) # routes) rt req st =
     (if m = req_method req
      then (case match_path pattern (req_path req) of
              Some params \<Rightarrow> handle ep rt req params st
            | None \<Rightarrow> dispatch routes rt req st)
      else dispatch routes rt req st)"

text \<open>The routes of server.js, in the order of registration.\<close>

definition server_js_routes :: "route list" where
  "server_js_routes =
     [(POST, [Fixed ''strings''], Create_server_js),
      (GET, [Fixed ''strings'', Param ''value''], GetByValue),
      (GET, [Fixed ''strings''], ListFilter),
      (GET, [Fixed ''strings'', Fixed ''query''], NaturalLanguage),
      (DELETE, [Fixed ''strings'', Param ''value''], Delete)]"

text \<open>The routes of the second file, in the order of registration.\<close>

definition part_000_routes :: "route list" where
  "part_000_routes =
     [(POST, [Fixed ''api'', Fixed ''v1'', Fixed ''strings''], Create_part_000),
      (GET, [Fixed ''api'', Fixed ''v1'', Fixed ''strings'', Param ''value''], GetByValue),
      (GET, [Fixed ''api'', Fixed ''v1'', Fixed ''strings''], ListFilter),
      (GET, [Fixed ''api'', Fixed ''v1'', Fixed ''strings'', Fixed ''filter-by-natural-language''],
         NaturalLanguage),
      (DELETE, [Fixed ''api'', Fixed ''v1'', Fixed ''strings'', Param ''value''], Delete)]"

section \<open>Notions used to state the properties\<close>

text \<open>A string contains a surrogate pair: a high surrogate directly followed by a low one.\<close>

fun hasSurrogatePair :: "jsstring \<Rightarrow> bool" where
  "hasSurrogatePair (c # d # cs) =
     ((isHighSurrogate c \<and> isLowSurrogate d) \<or> hasSurrogatePair (d # cs))"
| "hasSurrogatePair _ = False"

text \<open>
  The \<open>value\<close> field of a request body, \<open>None\<close> when the body has none (no body, a
  body that is not an object, or an object without the key).
\<close>

definition body_value :: "json option \<Rightarrow> json option" where
  "body_value payload = (case payload of None \<Rightarrow> None | Some p \<Rightarrow> getValue p)"

text \<open>The body \<open>{"value": v}\<close>.\<close>

definition value_body :: "jsstring \<Rightarrow> json option" where
  "value_body v = Some (JObject [(lit ''value'', JString v)])"

text \<open>
  A filter parameter is invalid when it is present and its value is not accepted:
  \<open>isPalindrome\<close> other than \<open>true\<close> and \<open>false\<close>, a numeric parameter that
  \<open>Number\<close> does not turn into a finite number.
\<close>

definition invalid_isPalindrome :: "(string \<Rightarrow> jsstring option) \<Rightarrow> bool" where
  "invalid_isPalindrome query =
     (case query ''isPalindrome'' of
        None \<Rightarrow> False
      | Some v \<Rightarrow> v \<noteq> lit ''true'' \<and> v \<noteq> lit ''false'')"

definition invalid_number :: "runtime \<Rightarrow> (string \<Rightarrow> jsstring option) \<Rightarrow> string \<Rightarrow> bool" where
  "invalid_number rt query f =
     (case query f of None \<Rightarrow> False | Some v \<Rightarrow> \<not> isFinite (Number rt v))"

text \<open>
  The conjunction of the predicates a query supplies, as the specification lists them:
  \<open>isPalindrome\<close> is an exact match, \<open>minLength\<close> and \<open>maxLength\<close> bound the length
  inclusively, \<open>wordCount\<close> is an equality, \<open>contains\<close> is a case-sensitive
  substring test. An absent parameter contributes \<open>True\<close>.
\<close>

definition satisfies :: "runtime \<Rightarrow> (string \<Rightarrow> jsstring option) \<Rightarrow> analysis \<Rightarrow> bool" where
  "satisfies rt query r =
     ((case query ''isPalindrome'' of
         None \<Rightarrow> True
       | Some v \<Rightarrow> isPalindrome r = (v = lit ''true'')) \<and>
      (case query ''minLength'' of
         None \<Rightarrow> True
       | Some v \<Rightarrow> (case Number rt v of Finite n \<Rightarrow> n \<le> of_nat (length_f r) | _ \<Rightarrow> False)) \<and>
      (case query ''maxLength'' of
         None \<Rightarrow> True
       | Some v \<Rightarrow> (case Number rt v of Finite n \<Rightarrow> of_nat (length_f r) \<le> n | _ \<Rightarrow> False)) \<and>
      (case query ''wordCount'' of
         None \<Rightarrow> True
       | Some v \<Rightarrow> (case Number rt v of Finite n \<Rightarrow> of_nat (wordCount r) = n | _ \<Rightarrow> False)) \<and>
      (case query ''contains'' of
         None \<Rightarrow> True
       | Some v \<Rightarrow> includes_str (string_f r) v))"

section \<open>The specification's wording of the word count\<close>

text \<open>
  The tokens of a string as the specification describes them: white space only
  separates, a run of it is one separator, and leading and trailing white space
  delimits nothing. A token is a maximal run of units that are not white space.
\<close>

function tokens :: "jsstring \<Rightarrow> jsstring list" where
  "tokens [] = []"
| "tokens (c # cs) =
     (if isWhiteSpace c then tokens cs
      else (c # takeWhile (\<lambda>x. \<not> isWhiteSpace x) cs) #
           tokens (dropWhile (\<lambda>x. \<not> isWhiteSpace x) cs))"
  by pat_completeness auto
termination
  by (relation "measure length") (auto simp: le_imp_less_Suc length_dropWhile_le)

section \<open>A runtime for evaluation\<close>

text \<open>
  An instance of the built-ins on which the handlers can be run on concrete requests.
  \<open>asciiLowerCase\<close> is \<open>toLowerCase\<close> on strings of ASCII code units;
  \<open>decimalNumber\<close> is \<open>Number\<close> on the empty string, on strings of up to fifteen
  digits (all these values are doubles) and gives NaN on the other strings used below,
  as \<open>Number\<close> does. The digest is not computed: no statement below depends on its value.
\<close>

definition asciiLowerCase :: "jsstring \<Rightarrow> jsstring" where
  "asciiLowerCase s = map (\<lambda>c. if isUpper c then c + 0x20 else c) s"

definition decimalNumber :: "jsstring \<Rightarrow> jsnum" where
  "decimalNumber s =
     (if list_all isDigit s
      then Finite (of_nat (foldl (\<lambda>a c. 10 * a + unat (c - 0x30)) 0 s))
      else NaN)"

definition example_runtime :: runtime where
  "example_runtime =
     \<lparr> sha256Hex = (\<lambda>s. []), toLowerCase = asciiLowerCase, Number = decimalNumber \<rparr>"

section \<open>Properties of the analyzer\<close>

subsection \<open>Palindromes\<close>

lemma reversed_rev: "reversed s = rev s"
  by (induction s) (simp_all add: reversed_def)

lemma kept_units:
  "(\<not> nonAlnum c) = (c \<in> {0x30..0x39} \<union> {0x41..0x5A} \<union> {0x61..0x7A})"
  by (auto simp: nonAlnum_def isAlnum_def isDigit_def isUpper_def isLower_def)

text \<open>
  Claim C3. For every string \<open>s\<close>, \<open>analyse(s).isPalindrome\<close> is true exactly when the
  projection of \<open>s\<close>, obtained by removing every code unit outside \<open>[0-9a-zA-Z]\<close> and
  lower-casing the rest, is not empty and equals its own reversal. In particular a
  string with an empty projection is not a palindrome.
\<close>

theorem isPalindrome_iff_projection:
  "isPalindrome (analyse rt s) =
     (let p = toLowerCase rt (filter (\<lambda>c. c \<in> {0x30..0x39} \<union> {0x41..0x5A} \<union> {0x61..0x7A}) s)
      in p \<noteq> [] \<and> p = rev p)"
  by (simp add: analyse_def Let_def sanitizeForPalindrome_def reversed_rev kept_units)

text \<open>
  The examples of the specification: \<open>"!!!"\<close> has an empty projection,
  \<open>"A man a plan a canal Panama"\<close> is a palindrome, \<open>"hello"\<close> is not.
\<close>

theorem isPalindrome_iff_projection_witness: "\<not> isPalindrome (analyse example_runtime (lit ''!!!''))
  \<and> isPalindrome (analyse example_runtime (lit ''A man a plan a canal Panama''))
  \<and> \<not> isPalindrome (analyse example_runtime (lit ''hello''))"
  using isPalindrome_iff_projection [of example_runtime "lit ''!!!''"]
    isPalindrome_iff_projection [of example_runtime "lit ''A man a plan a canal Panama''"]
    isPalindrome_iff_projection [of example_runtime "lit ''hello''"]
  by (simp add: Let_def lit_def example_runtime_def asciiLowerCase_def isUpper_def)

subsection \<open>Word count\<close>

lemma tokens_dropWhile_ws: "tokens (dropWhile isWhiteSpace s) = tokens s"
  by (induction s) simp_all

lemma takeWhile_append_stop:
  "\<forall>x\<in>set w. \<not> P x \<Longrightarrow> takeWhile P (cs @ w) = takeWhile P cs"
proof (induction cs)
  case Nil
  then show ?case by (cases w) simp_all
next
  case (Cons a cs)
  then show ?case by simp
qed

lemma dropWhile_append_stop:
  "\<forall>x\<in>set w. \<not> P x \<Longrightarrow> dropWhile P (cs @ w) = dropWhile P cs @ w"
proof (induction cs)
  case Nil
  then show ?case by (cases w) simp_all
next
  case (Cons a cs)
  then show ?case by simp
qed

lemma tokens_append_ws:
  "\<forall>x\<in>set w. isWhiteSpace x \<Longrightarrow> tokens (s @ w) = tokens s"
proof (induction s rule: tokens.induct)
  case 1
  then show ?case by (induction w) simp_all
next
  case (2 c cs)
  from "2.prems" have stop: "\<forall>x\<in>set w. \<not> \<not> isWhiteSpace x" by simp
  show ?case
  proof (cases "isWhiteSpace c")
    case True
    with 2 show ?thesis by simp
  next
    case False
    with 2 show ?thesis
      by (simp add: takeWhile_append_stop [OF stop] dropWhile_append_stop [OF stop])
  qed
qed

lemma tokens_trim: "tokens (trim s) = tokens s"
proof -
  let ?u = "dropWhile isWhiteSpace s"
  have "?u = rev (dropWhile isWhiteSpace (rev ?u)) @ rev (takeWhile isWhiteSpace (rev ?u))"
    by (metis rev_append rev_rev_ident takeWhile_dropWhile_id)
  moreover have "\<forall>x\<in>set (rev (takeWhile isWhiteSpace (rev ?u))). isWhiteSpace x"
    by (auto dest: set_takeWhileD)
  ultimately have "tokens ?u = tokens (rev (dropWhile isWhiteSpace (rev ?u)))"
    by (metis tokens_append_ws)
  then show ?thesis by (simp add: trim_def tokens_dropWhile_ws)
qed

lemma tokens_run:
  assumes "\<forall>x\<in>set p. \<not> isWhiteSpace x" "p \<noteq> []" "r = [] \<or> isWhiteSpace (hd r)"
  shows "tokens (p @ r) = p # tokens r"
proof -
  obtain a p' where p: "p = a # p'" using assms(2) by (cases p) auto
  have stop: "\<forall>x\<in>set (take 1 r). \<not> \<not> isWhiteSpace x"
    using assms(3) by (cases r) auto
  have "takeWhile (\<lambda>x. \<not> isWhiteSpace x) (p' @ r) = p'"
    using assms(1,3) p by (cases r) (simp_all add: takeWhile_append2)
  moreover have "dropWhile (\<lambda>x. \<not> isWhiteSpace x) (p' @ r) = r"
    using assms(1,3) p by (cases r) (simp_all add: dropWhile_append2)
  ultimately show ?thesis using assms(1) p by simp
qed

lemma split_ws_tokens:
  "\<forall>x\<in>set piece. \<not> isWhiteSpace x \<Longrightarrow> s = [] \<or> \<not> isWhiteSpace (last s) \<Longrightarrow>
   piece \<noteq> [] \<or> (s \<noteq> [] \<and> \<not> isWhiteSpace (hd s)) \<Longrightarrow>
   split_ws piece s = tokens (piece @ s)"
proof (induction piece s rule: split_ws.induct)
  case (1 piece)
  then show ?case using tokens_run [of piece "[]"] by simp
next
  case (2 piece c cs)
  show ?case
  proof (cases "isWhiteSpace c")
    case True
    with "2.prems" have pne: "piece \<noteq> []" by auto
    from True "2.prems"(2) have cs: "cs \<noteq> []" "\<not> isWhiteSpace (last cs)"
      by (auto split: if_splits)
    let ?t = "dropWhile isWhiteSpace cs"
    from cs have tne: "?t \<noteq> []"
      by (metis dropWhile_eq_Nil_conv last_in_set)
    then have hd: "\<not> isWhiteSpace (hd ?t)" by (rule hd_dropWhile)
    have "last ?t = last cs"
      using tne by (metis last_appendR takeWhile_dropWhile_id)
    with cs have lt: "\<not> isWhiteSpace (last ?t)" by simp
    have "split_ws [] ?t = tokens ([] @ ?t)"
      using "2.IH"(1) [OF True] tne hd lt by simp
    moreover have "tokens (piece @ c # cs) = piece # tokens (c # cs)"
      using tokens_run [of piece "c # cs"] "2.prems"(1) pne True by simp
    moreover have "tokens (c # cs) = tokens ?t"
      using True by (simp add: tokens_dropWhile_ws)
    ultimately show ?thesis using True by simp
  next
    case False
    have "split_ws (piece @ [c]) cs = tokens ((piece @ [c]) @ cs)"
      using "2.IH"(2) [OF False] "2.prems" False by (auto split: if_splits)
    then show ?thesis using False by simp
  qed
qed

lemma words_tokens: "words s = tokens s"
proof (cases "trim s = []")
  case True
  have "tokens s = tokens (trim s)" by (simp add: tokens_trim)
  with True show ?thesis by (simp add: words_def)
next
  case False
  let ?t = "trim s"
  let ?u = "dropWhile isWhiteSpace s"
  let ?d = "dropWhile isWhiteSpace (rev ?u)"
  from False have dne: "?d \<noteq> []" by (simp add: trim_def)
  have une: "?u \<noteq> []"
  proof
    assume a: "?u = []"
    show False using dne unfolding a by simp
  qed
  have "last ?d = last (rev ?u)"
    using dne by (metis last_appendR takeWhile_dropWhile_id)
  also have "\<dots> = hd ?u" using une by (simp add: last_rev)
  finally have "hd ?t = hd ?u" using dne by (simp add: trim_def hd_rev)
  moreover have "\<not> isWhiteSpace (hd ?u)" using une by (rule hd_dropWhile)
  ultimately have hd: "\<not> isWhiteSpace (hd ?t)" by simp
  have lst: "\<not> isWhiteSpace (last ?t)"
    using dne by (simp add: trim_def last_rev hd_dropWhile)
  have "split_ws [] ?t = tokens ([] @ ?t)"
    by (rule split_ws_tokens) (use False hd lst in auto)
  moreover have "tokens s = tokens (trim s)" by (simp add: tokens_trim)
  ultimately show ?thesis using False by (simp add: words_def)
qed

text \<open>
  Claim C9. For every string \<open>s\<close>, \<open>analyse(s).wordCount\<close> is the number of tokens of
  \<open>s\<close> delimited by white space, after trimming and with a run of white space counted
  as one delimiter; an empty or blank string has word count 0.
\<close>

theorem wordCount_tokens:
  "wordCount (analyse rt s) = length (tokens s) \<and>
   ((\<forall>c\<in>set s. isWhiteSpace c) \<longrightarrow> wordCount (analyse rt s) = 0)"
proof -
  have wc: "wordCount (analyse rt s) = length (tokens s)"
    by (simp add: analyse_def Let_def words_tokens)
  have "(\<forall>c\<in>set s. isWhiteSpace c) \<longrightarrow> tokens s = []"
    using tokens_append_ws [of s "[]"] by simp
  with wc show ?thesis by simp
qed

text \<open>
  The examples of the specification: the blank string \<open>"  "\<close> and the empty string
  have word count 0, and \<open>"one two  three"\<close> has word count 3.
\<close>

theorem wordCount_tokens_witness:
  "list_all isWhiteSpace (lit ''  '') \<and>
   wordCount (analyse example_runtime (lit ''  '')) = 0 \<and>
   wordCount (analyse example_runtime (lit [])) = 0 \<and>
   wordCount (analyse example_runtime (lit ''one two  three'')) = 3"
  using wordCount_tokens [of example_runtime "lit ''  ''"]
    wordCount_tokens [of example_runtime "lit []"]
    wordCount_tokens [of example_runtime "lit ''one two  three''"]
  by (simp add: lit_def isWhiteSpace_def)


subsection \<open>Character frequency\<close>

lemma keys_countChar: "fst ` set (countChar f ch) = insert ch (fst ` set f)"
  by (simp add: countChar_def AList.update_keys dom_update)

lemma distinct_countChar: "distinct (map fst f) \<Longrightarrow> distinct (map fst (countChar f ch))"
  by (simp add: countChar_def distinct_update)

lemma sum_update_new:
  "map_of f k = None \<Longrightarrow> sum_list (map snd (AList.update k v f)) = sum_list (map snd f) + (v::nat)"
  by (induction f) (auto split: if_splits)

lemma sum_update_old:
  "distinct (map fst f) \<Longrightarrow> map_of f k = Some n \<Longrightarrow>
   sum_list (map snd (AList.update k (n + 1) f)) = sum_list (map snd f) + (1::nat)"
proof (induction f)
  case Nil
  then show ?case by simp
next
  case (Cons p f)
  then show ?case by (cases p) (auto split: if_splits)
qed

lemma sum_countChar:
  "distinct (map fst f) \<Longrightarrow> sum_list (map snd (countChar f ch)) = sum_list (map snd f) + 1"
proof (cases "map_of f ch")
  case None
  then show ?thesis by (simp add: countChar_def sum_update_new)
next
  case (Some n)
  assume "distinct (map fst f)"
  from sum_update_old [OF this Some] Some show ?thesis
    by (simp only: countChar_def option.case)
qed

lemma set_update_subset: "set (AList.update k v f) \<subseteq> insert (k, v) (set f)"
  by (induction f) auto

lemma positive_countChar:
  "\<forall>p\<in>set f. 1 \<le> snd p \<Longrightarrow> \<forall>p\<in>set (countChar f ch). 1 \<le> snd p"
  using set_update_subset [of ch _ f] by (fastforce simp: countChar_def)

lemma foldl_countChar:
  "distinct (map fst f) \<Longrightarrow> \<forall>p\<in>set f. 1 \<le> snd p \<Longrightarrow>
   fst ` set (foldl countChar f xs) = fst ` set f \<union> set xs \<and>
   distinct (map fst (foldl countChar f xs)) \<and>
   (\<forall>p\<in>set (foldl countChar f xs). 1 \<le> snd p) \<and>
   sum_list (map snd (foldl countChar f xs)) = sum_list (map snd f) + length xs"
proof (induction xs arbitrary: f)
  case Nil
  then show ?case by simp
next
  case (Cons x xs)
  have d: "distinct (map fst (countChar f x))" using Cons.prems(1) by (rule distinct_countChar)
  have p: "\<forall>p\<in>set (countChar f x). 1 \<le> snd p" using Cons.prems(2) by (rule positive_countChar)
  from Cons.IH [OF d p] show ?case
    by (simp add: keys_countChar sum_countChar [OF Cons.prems(1)])
qed

lemma length_codePoints_le: "length (codePoints s) \<le> length s"
  by (induction s rule: codePoints.induct) auto

lemma length_codePoints_pair:
  "hasSurrogatePair s \<Longrightarrow> length (codePoints s) < length s"
proof (induction s rule: codePoints.induct)
  case 1
  then show ?case by simp
next
  case (2 c)
  then show ?case by simp
next
  case (3 c d cs)
  show ?case
  proof (cases "isHighSurrogate c \<and> isLowSurrogate d")
    case True
    then show ?thesis using length_codePoints_le [of cs] by simp
  next
    case False
    with 3 show ?thesis by auto
  qed
qed

text \<open>
  Claim C10. For every string \<open>s\<close>, in the record \<open>analyse(s)\<close> the keys of
  \<open>characterFrequency\<close> are exactly the distinct code points of \<open>s\<close>, every count is
  at least 1, \<open>uniqueCharacters\<close> is the number of keys, and the counts sum to the
  number of code points of \<open>s\<close>; that number is at most the \<open>length\<close> field, and
  strictly smaller when \<open>s\<close> contains a surrogate pair, since \<open>length\<close> counts code
  units.
\<close>

theorem characterFrequency_invariants:
  "fst ` set (characterFrequency (analyse rt s)) = set (codePoints s) \<and>
   distinct (map fst (characterFrequency (analyse rt s))) \<and>
   (\<forall>p\<in>set (characterFrequency (analyse rt s)). 1 \<le> snd p) \<and>
   uniqueCharacters (analyse rt s) = card (set (codePoints s)) \<and>
   sum_list (map snd (characterFrequency (analyse rt s))) = length (codePoints s) \<and>
   length (codePoints s) \<le> length_f (analyse rt s) \<and>
   (hasSurrogatePair s \<longrightarrow> length (codePoints s) < length_f (analyse rt s))"
proof -
  let ?f = "foldl countChar [] (codePoints s)"
  have inv: "fst ` set ?f = set (codePoints s)" "distinct (map fst ?f)"
    "\<forall>p\<in>set ?f. 1 \<le> snd p" "sum_list (map snd ?f) = length (codePoints s)"
    using foldl_countChar [of "[]" "codePoints s"] by simp_all
  have u: "length (map fst ?f) = card (set (codePoints s))"
    using distinct_card [OF inv(2)] inv(1) by (simp only: set_map)
  show ?thesis
    using inv u length_codePoints_le [of s] length_codePoints_pair [of s]
    by (simp add: analyse_def Let_def)
qed

text \<open>
  The string \<open>a\<close>, U+1F600, \<open>a\<close>: four code units, three code points, two keys.
\<close>

theorem characterFrequency_invariants_witness:
  "hasSurrogatePair [0x61, 0xD83D, 0xDE00, 0x61] \<and>
   characterFrequency (analyse example_runtime [0x61, 0xD83D, 0xDE00, 0x61]) =
     [([0x61], 2), ([0xD83D, 0xDE00], 1)] \<and>
   uniqueCharacters (analyse example_runtime [0x61, 0xD83D, 0xDE00, 0x61]) = 2 \<and>
   length (codePoints [0x61, 0xD83D, 0xDE00, 0x61]) = 3 \<and>
   length_f (analyse example_runtime [0x61, 0xD83D, 0xDE00, 0x61]) = 4"
  using characterFrequency_invariants [of example_runtime "[0x61, 0xD83D, 0xDE00, 0x61]"]
  by (simp add: analyse_def Let_def countChar_def isHighSurrogate_def isLowSurrogate_def)


section \<open>Properties of the store and of Create\<close>

lemma store_has_set: "store_has (store_set st k a) k"
  by (simp add: store_has_def store_set_def update_conv)

lemma store_get_set: "store_get (store_set st k a) k = Some a"
  by (simp add: store_get_def store_set_def update_conv)

lemma store_has_delete: "\<not> store_has (store_delete st k) k"
  by (simp add: store_has_def store_delete_def delete_conv)

lemma hasOwnValue_getValue: "hasOwnValue p = (getValue p \<noteq> None)"
  by (cases p) (simp_all add: map_of_eq_None_iff)

lemma getValue_falsy: "falsy p \<Longrightarrow> getValue p = None"
  by (cases p) simp_all

lemma post_strings_cases:
  "post_strings rt payload st =
     (case body_value payload of
        None \<Rightarrow> (json_error 400 ''Missing 'value' field'', st)
      | Some (JString v) \<Rightarrow>
          if store_has st v then (json_error 409 ''String already exists'', st)
          else (\<lparr> status = 201, body = RecordBody (analyse rt v) \<rparr>, store_set st v (analyse rt v))
      | Some _ \<Rightarrow> (json_error 422 (CHR 0x27 # ''value' must be a string''), st))"
proof (cases payload)
  case None
  then show ?thesis by (simp add: post_strings_def body_value_def)
next
  case (Some p)
  show ?thesis
  proof (cases "getValue p")
    case None
    with Some show ?thesis
      by (simp add: post_strings_def body_value_def hasOwnValue_getValue)
  next
    case (Some j)
    then have "p \<noteq> JNull" by (cases p) simp_all
    with Some \<open>payload = Some p\<close> show ?thesis
      by (simp add: post_strings_def body_value_def hasOwnValue_getValue Let_def
               split: json.splits)
  qed
qed

lemma post_api_v1_strings_cases:
  "post_api_v1_strings rt payload st =
     (case body_value payload of
        None \<Rightarrow> (json_error 400 ''Missing 'value' field'', st)
      | Some (JString v) \<Rightarrow>
          if store_has st v then (json_error 409 ''String already exists'', st)
          else (\<lparr> status = 201, body = RecordBody (analyse rt v) \<rparr>, store_set st v (analyse rt v))
      | Some _ \<Rightarrow> (json_error 422 (CHR 0x27 # ''value' must be a string''), st))"
proof (cases payload)
  case None
  then show ?thesis by (simp add: post_api_v1_strings_def body_value_def)
next
  case (Some p)
  then show ?thesis
    by (cases "falsy p")
       (simp_all add: post_api_v1_strings_def body_value_def getValue_falsy Let_def
             split: option.splits json.splits)
qed

text \<open>
  Claim C2. For every Create request, of either file: a body without a \<open>value\<close> field
  is answered 400; a \<open>value\<close> that is not a string 422; a string already stored 409;
  otherwise the answer is 201 with the record \<open>analyse(value)\<close>, and that record is
  stored under the exact string.
\<close>

theorem create_responses:
  assumes "create = post_strings \<or> create = post_api_v1_strings"
  shows "(body_value payload = None \<longrightarrow>
            create rt payload st = (json_error 400 ''Missing 'value' field'', st)) \<and>
         (\<forall>j. body_value payload = Some j \<and> (\<forall>v. j \<noteq> JString v) \<longrightarrow>
            create rt payload st = (json_error 422 (CHR 0x27 # ''value' must be a string''), st)) \<and>
         (\<forall>v. body_value payload = Some (JString v) \<and> store_has st v \<longrightarrow>
            create rt payload st = (json_error 409 ''String already exists'', st)) \<and>
         (\<forall>v. body_value payload = Some (JString v) \<and> \<not> store_has st v \<longrightarrow>
            create rt payload st =
              (\<lparr> status = 201, body = RecordBody (analyse rt v) \<rparr>, store_set st v (analyse rt v)) \<and>
            store_get (store_set st v (analyse rt v)) v = Some (analyse rt v) \<and>
            string_f (analyse rt v) = v \<and>
            length_f (analyse rt v) = length v \<and>
            sha256 (analyse rt v) = sha256Hex rt v)"
proof -
  have c: "create rt payload st =
     (case body_value payload of
        None \<Rightarrow> (json_error 400 ''Missing 'value' field'', st)
      | Some (JString v) \<Rightarrow>
          if store_has st v then (json_error 409 ''String already exists'', st)
          else (\<lparr> status = 201, body = RecordBody (analyse rt v) \<rparr>, store_set st v (analyse rt v))
      | Some _ \<Rightarrow> (json_error 422 (CHR 0x27 # ''value' must be a string''), st))"
    using assms post_strings_cases post_api_v1_strings_cases by auto
  have f: "string_f (analyse rt v) = v \<and> length_f (analyse rt v) = length v \<and>
           sha256 (analyse rt v) = sha256Hex rt v" for v
    by (simp add: analyse_def Let_def)
  show ?thesis
    unfolding c by (auto simp: store_get_set f split: json.splits)
qed

text \<open>The body \<open>{"value": "abc"}\<close> on the empty store, a number as value, no value.\<close>

theorem create_responses_witness:
  "body_value (value_body (lit ''abc'')) = Some (JString (lit ''abc'')) \<and>
   \<not> store_has [] (lit ''abc'') \<and>
   status (fst (post_strings example_runtime (value_body (lit ''abc'')) [])) = 201 \<and>
   map fst (snd (post_strings example_runtime (value_body (lit ''abc'')) [])) = [lit ''abc''] \<and>
   body_value (Some (JObject [(lit ''value'', JNumber 5)])) = Some (JNumber 5) \<and>
   status (fst (post_strings example_runtime (Some (JObject [(lit ''value'', JNumber 5)])) [])) = 422 \<and>
   body_value (Some (JObject [])) = None \<and>
   status (fst (post_strings example_runtime (Some (JObject [])) [])) = 400"
  using create_responses [of post_strings "value_body (lit ''abc'')" example_runtime "[]"]
    create_responses [of post_strings "Some (JObject [(lit ''value'', JNumber 5)])" example_runtime "[]"]
    create_responses [of post_strings "Some (JObject [])" example_runtime "[]"]
  by (simp add: body_value_def value_body_def store_has_def store_set_def json_error_def lit_def)

lemma body_value_value_body: "body_value (value_body v) = Some (JString v)"
  by (simp add: body_value_def value_body_def)

lemma create_value:
  assumes "create = post_strings \<or> create = post_api_v1_strings"
  shows "create rt (value_body v) st =
     (if store_has st v then (json_error 409 ''String already exists'', st)
      else (\<lparr> status = 201, body = RecordBody (analyse rt v) \<rparr>, store_set st v (analyse rt v)))"
  using assms by (auto simp: post_strings_cases post_api_v1_strings_cases body_value_value_body)

text \<open>
  Claim C7. Create succeeds (201) exactly when the key is absent. Creating an absent
  value gives 201, creating it again 409 with the store unchanged, deleting it 204, and
  creating it once more 201.
\<close>

theorem create_twice_delete_create:
  assumes "create = post_strings \<or> create = post_api_v1_strings"
  shows "(status (fst (create rt (value_body v) st)) = 201) = (\<not> store_has st v) \<and>
         (store_has st v \<longrightarrow>
            create rt (value_body v) st = (json_error 409 ''String already exists'', st)) \<and>
         (\<not> store_has st v \<longrightarrow>
            (let (r1, st1) = create rt (value_body v) st;
                 (r2, st2) = create rt (value_body v) st1;
                 (r3, st3) = delete_string (Some v) st2;
                 (r4, st4) = create rt (value_body v) st3
             in status r1 = 201 \<and> status r2 = 409 \<and> st2 = st1 \<and>
                status r3 = 204 \<and> \<not> store_has st3 v \<and> status r4 = 201))"
  by (simp add: create_value [OF assms] json_error_def store_has_set store_has_delete
        delete_string_def Let_def)

text \<open>The sequence create, create, delete, create for \<open>"abc"\<close> on the empty store.\<close>

theorem create_twice_delete_create_witness:
  "\<not> store_has [] (lit ''abc'') \<and>
   (let (r1, st1) = post_strings example_runtime (value_body (lit ''abc'')) [];
        (r2, st2) = post_strings example_runtime (value_body (lit ''abc'')) st1;
        (r3, st3) = delete_string (Some (lit ''abc'')) st2;
        (r4, st4) = post_strings example_runtime (value_body (lit ''abc'')) st3
    in status r1 = 201 \<and> status r2 = 409 \<and> st2 = st1 \<and>
       status r3 = 204 \<and> \<not> store_has st3 (lit ''abc'') \<and> status r4 = 201)"
  using create_twice_delete_create [of post_strings example_runtime "lit ''abc''" "[]"]
  by (simp add: store_has_def)

section \<open>Failures\<close>

lemma post_strings_failure:
  "post_strings rt payload st = (r, st') \<Longrightarrow> 400 \<le> status r \<Longrightarrow>
   (\<exists>msg. body r = ErrorBody msg) \<and> st' = st"
  by (auto simp: post_strings_def json_error_def Let_def
           split: option.splits json.splits if_splits)

lemma post_api_v1_strings_failure:
  "post_api_v1_strings rt payload st = (r, st') \<Longrightarrow> 400 \<le> status r \<Longrightarrow>
   (\<exists>msg. body r = ErrorBody msg) \<and> st' = st"
  by (auto simp: post_api_v1_strings_def json_error_def Let_def
           split: option.splits json.splits if_splits)

lemma get_string_failure:
  "get_string v st = (r, st') \<Longrightarrow> 400 \<le> status r \<Longrightarrow>
   (\<exists>msg. body r = ErrorBody msg) \<and> st' = st"
  by (auto simp: get_string_def json_error_def split: option.splits)

lemma delete_string_failure:
  "delete_string v st = (r, st') \<Longrightarrow> 400 \<le> status r \<Longrightarrow>
   (\<exists>msg. body r = ErrorBody msg) \<and> st' = st"
  by (auto simp: delete_string_def json_error_def split: option.splits if_splits)

lemma by_isPalindrome_error:
  "by_isPalindrome p xs = Inl e \<Longrightarrow> \<exists>msg. e = json_error 400 msg"
  by (auto simp: by_isPalindrome_def Let_def split: option.splits if_splits)

lemma by_minLength_error:
  "by_minLength rt p xs = Inl e \<Longrightarrow> \<exists>msg. e = json_error 400 msg"
  by (auto simp: by_minLength_def split: option.splits jsnum.splits)

lemma by_maxLength_error:
  "by_maxLength rt p xs = Inl e \<Longrightarrow> \<exists>msg. e = json_error 400 msg"
  by (auto simp: by_maxLength_def split: option.splits jsnum.splits)

lemma by_wordCount_error:
  "by_wordCount rt p xs = Inl e \<Longrightarrow> \<exists>msg. e = json_error 400 msg"
  by (auto simp: by_wordCount_def split: option.splits jsnum.splits)

lemma get_strings_shape:
  "get_strings rt query st = (r, st') \<Longrightarrow>
   st' = st \<and> ((\<exists>msg. r = json_error 400 msg) \<or> (\<exists>xs. r = json_list xs))"
  by (auto simp: get_strings_def split: sum.splits
           dest: by_isPalindrome_error by_minLength_error by_maxLength_error by_wordCount_error)

lemma get_strings_failure:
  "get_strings rt query st = (r, st') \<Longrightarrow> 400 \<le> status r \<Longrightarrow>
   (\<exists>msg. body r = ErrorBody msg) \<and> st' = st"
  by (drule get_strings_shape) (auto simp: json_error_def json_list_def)

lemma get_strings_query_shape:
  "get_strings_query rt query st = (r, st') \<Longrightarrow>
   st' = st \<and> ((\<exists>code msg. r = json_error code msg) \<or> (\<exists>xs. r = json_list xs))"
  by (auto simp: get_strings_query_def Let_def split: option.splits if_splits jsnum.splits)

lemma get_strings_query_failure:
  "get_strings_query rt query st = (r, st') \<Longrightarrow> 400 \<le> status r \<Longrightarrow>
   (\<exists>msg. body r = ErrorBody msg) \<and> st' = st"
  by (drule get_strings_query_shape) (auto simp: json_error_def json_list_def)

text \<open>
  Claim C8. Every operation that fails (a status from 400 on) answers with an
  \<open>{error: message}\<close> body and leaves the store as it was: a failed Create stores
  nothing, a failed Delete removes nothing.
\<close>

theorem failure_is_structured_and_pure:
  "handle ep rt req params st = (r, st') \<Longrightarrow> 400 \<le> status r \<Longrightarrow>
   (\<exists>msg. body r = ErrorBody msg) \<and> st' = st"
  by (cases ep)
     (simp_all add: post_strings_failure post_api_v1_strings_failure get_string_failure
        get_strings_failure get_strings_query_failure delete_string_failure)

section \<open>Properties of the list operation\<close>

lemma by_isPalindrome_eq:
  "by_isPalindrome (query ''isPalindrome'') xs =
     (if invalid_isPalindrome query
      then Inl (json_error 400 (''isPalindrome must be 'true' or 'false'' @ [CHR 0x27]))
      else Inr (filter (\<lambda>r. case query ''isPalindrome'' of
                               None \<Rightarrow> True
                             | Some v \<Rightarrow> isPalindrome r = (v = lit ''true'')) xs))"
  by (simp add: by_isPalindrome_def invalid_isPalindrome_def Let_def split: option.splits)

lemma by_minLength_eq:
  "by_minLength rt (query ''minLength'') xs =
     (if invalid_number rt query ''minLength''
      then Inl (json_error 400 ''minLength must be a number'')
      else Inr (filter (\<lambda>r. case query ''minLength'' of
                               None \<Rightarrow> True
                             | Some v \<Rightarrow> (case Number rt v of
                                           Finite n \<Rightarrow> n \<le> of_nat (length_f r)
                                         | _ \<Rightarrow> False)) xs))"
  by (simp add: by_minLength_def invalid_number_def split: option.splits jsnum.splits)

lemma by_maxLength_eq:
  "by_maxLength rt (query ''maxLength'') xs =
     (if invalid_number rt query ''maxLength''
      then Inl (json_error 400 ''maxLength must be a number'')
      else Inr (filter (\<lambda>r. case query ''maxLength'' of
                               None \<Rightarrow> True
                             | Some v \<Rightarrow> (case Number rt v of
                                           Finite n \<Rightarrow> of_nat (length_f r) \<le> n
                                         | _ \<Rightarrow> False)) xs))"
  by (simp add: by_maxLength_def invalid_number_def split: option.splits jsnum.splits)

lemma by_wordCount_eq:
  "by_wordCount rt (query ''wordCount'') xs =
     (if invalid_number rt query ''wordCount''
      then Inl (json_error 400 ''wordCount must be a number'')
      else Inr (filter (\<lambda>r. case query ''wordCount'' of
                               None \<Rightarrow> True
                             | Some v \<Rightarrow> (case Number rt v of
                                           Finite n \<Rightarrow> of_nat (wordCount r) = n
                                         | _ \<Rightarrow> False)) xs))"
  by (simp add: by_wordCount_def invalid_number_def split: option.splits jsnum.splits)

lemma by_contains_eq:
  "by_contains (query ''contains'') xs =
     filter (\<lambda>r. case query ''contains'' of
                   None \<Rightarrow> True
                 | Some v \<Rightarrow> includes_str (string_f r) v) xs"
  by (simp add: by_contains_def split: option.splits)

lemma get_strings_eq:
  "get_strings rt query st =
     (if invalid_isPalindrome query
      then (json_error 400 (''isPalindrome must be 'true' or 'false'' @ [CHR 0x27]), st)
      else if invalid_number rt query ''minLength''
      then (json_error 400 ''minLength must be a number'', st)
      else if invalid_number rt query ''maxLength''
      then (json_error 400 ''maxLength must be a number'', st)
      else if invalid_number rt query ''wordCount''
      then (json_error 400 ''wordCount must be a number'', st)
      else (json_list (filter (satisfies rt query) (store_values st)), st))"
proof -
  have "filter (satisfies rt query) xs =
        filter (\<lambda>r. case query ''contains'' of
                   None \<Rightarrow> True
                 | Some v \<Rightarrow> includes_str (string_f r) v)
         (filter (\<lambda>r. case query ''wordCount'' of
                               None \<Rightarrow> True
                             | Some v \<Rightarrow> (case Number rt v of
                                           Finite n \<Rightarrow> of_nat (wordCount r) = n
                                         | _ \<Rightarrow> False))
          (filter (\<lambda>r. case query ''maxLength'' of
                               None \<Rightarrow> True
                             | Some v \<Rightarrow> (case Number rt v of
                                           Finite n \<Rightarrow> of_nat (length_f r) \<le> n
                                         | _ \<Rightarrow> False))
           (filter (\<lambda>r. case query ''minLength'' of
                               None \<Rightarrow> True
                             | Some v \<Rightarrow> (case Number rt v of
                                           Finite n \<Rightarrow> n \<le> of_nat (length_f r)
                                         | _ \<Rightarrow> False))
            (filter (\<lambda>r. case query ''isPalindrome'' of
                               None \<Rightarrow> True
                             | Some v \<Rightarrow> isPalindrome r = (v = lit ''true'')) xs))))" for xs
    unfolding filter_filter satisfies_def by (rule filter_cong) (simp_all add: conj_ac)
  then show ?thesis
    by (simp only: get_strings_def by_isPalindrome_eq by_minLength_eq by_maxLength_eq
          by_wordCount_eq by_contains_eq sum.case if_distrib [of "case_sum _ _"] split: if_splits)
qed

text \<open>
  Claim C5. When \<open>minLength\<close>, \<open>maxLength\<close> or \<open>wordCount\<close> is present with a
  value that is not a finite number, the list operation answers 400 with no result set,
  and the message names a parameter of the request whose value is invalid (the first in
  the order \<open>isPalindrome\<close>, \<open>minLength\<close>, \<open>maxLength\<close>, \<open>wordCount\<close>). A
  parameter whose value is a finite number is never the one named, and a request whose
  parameters are all valid is answered 200.
\<close>

theorem numeric_parameters_validated:
  "(invalid_number rt query ''minLength'' \<or> invalid_number rt query ''maxLength'' \<or>
    invalid_number rt query ''wordCount'' \<longrightarrow>
      (\<exists>msg. get_strings rt query st = (json_error 400 msg, st) \<and>
         ((msg = ''isPalindrome must be 'true' or 'false'' @ [CHR 0x27] \<and>
           invalid_isPalindrome query) \<or>
          (\<exists>f\<in>{''minLength'', ''maxLength'', ''wordCount''}.
             msg = f @ '' must be a number'' \<and> invalid_number rt query f)))) \<and>
   (\<not> invalid_isPalindrome query \<and> invalid_number rt query ''minLength'' \<longrightarrow>
      get_strings rt query st = (json_error 400 ''minLength must be a number'', st)) \<and>
   (\<forall>f\<in>{''minLength'', ''maxLength'', ''wordCount''}.
      \<not> invalid_number rt query f \<longrightarrow>
      fst (get_strings rt query st) \<noteq> json_error 400 (f @ '' must be a number'')) \<and>
   (\<not> invalid_isPalindrome query \<and> \<not> invalid_number rt query ''minLength'' \<and>
    \<not> invalid_number rt query ''maxLength'' \<and> \<not> invalid_number rt query ''wordCount'' \<longrightarrow>
      status (fst (get_strings rt query st)) = 200)"
  by (simp add: get_strings_eq json_error_def json_list_def)

text \<open>\<open>minLength=abc\<close> is rejected, \<open>minLength=4\<close> is accepted.\<close>

theorem numeric_parameters_validated_witness:
  "invalid_number example_runtime [''minLength'' \<mapsto> lit ''abc''] ''minLength'' \<and>
   get_strings example_runtime [''minLength'' \<mapsto> lit ''abc''] [] =
     (json_error 400 ''minLength must be a number'', []) \<and>
   \<not> invalid_number example_runtime [''minLength'' \<mapsto> lit ''4''] ''minLength'' \<and>
   status (fst (get_strings example_runtime [''minLength'' \<mapsto> lit ''4''] [])) = 200"
  using numeric_parameters_validated [of example_runtime "[''minLength'' \<mapsto> lit ''abc'']" "[]"]
    numeric_parameters_validated [of example_runtime "[''minLength'' \<mapsto> lit ''4'']" "[]"]
  by (simp add: invalid_number_def invalid_isPalindrome_def example_runtime_def
        decimalNumber_def isDigit_def lit_def)

lemma length_f_analyse: "length_f (analyse rt v) = length v"
  by (simp add: analyse_def Let_def)

text \<open>
  Claim C6. For every store and every valid combination of filter parameters the list
  operation answers 200 with exactly the stored records that satisfy all supplied
  predicates, in store order, together with their number; with no parameter at all it
  returns every record.
\<close>

theorem filter_is_conjunction:
  "\<not> invalid_isPalindrome query \<and> \<not> invalid_number rt query ''minLength'' \<and>
   \<not> invalid_number rt query ''maxLength'' \<and> \<not> invalid_number rt query ''wordCount'' \<longrightarrow>
     get_strings rt query st =
       (\<lparr> status = 200,
          body = ListBody (length (filter (satisfies rt query) (store_values st)))
                          (filter (satisfies rt query) (store_values st)) \<rparr>, st) \<and>
     ((\<forall>f. query f = None) \<longrightarrow> filter (satisfies rt query) (store_values st) = store_values st)"
  by (simp add: get_strings_eq json_list_def satisfies_def)

text \<open>
  Records of lengths 3, 5 and 7 with \<open>minLength=4&maxLength=6\<close>: exactly the record of
  length 5.
\<close>

theorem filter_is_conjunction_witness:
  "get_strings example_runtime [''minLength'' \<mapsto> lit ''4'', ''maxLength'' \<mapsto> lit ''6'']
     [(lit ''abc'', analyse example_runtime (lit ''abc'')),
      (lit ''abcde'', analyse example_runtime (lit ''abcde'')),
      (lit ''abcdefg'', analyse example_runtime (lit ''abcdefg''))] =
   (\<lparr> status = 200, body = ListBody 1 [analyse example_runtime (lit ''abcde'')] \<rparr>,
     [(lit ''abc'', analyse example_runtime (lit ''abc'')),
      (lit ''abcde'', analyse example_runtime (lit ''abcde'')),
      (lit ''abcdefg'', analyse example_runtime (lit ''abcdefg''))])"
  using filter_is_conjunction [of "[''minLength'' \<mapsto> lit ''4'', ''maxLength'' \<mapsto> lit ''6'']"
      example_runtime
      "[(lit ''abc'', analyse example_runtime (lit ''abc'')),
        (lit ''abcde'', analyse example_runtime (lit ''abcde'')),
        (lit ''abcdefg'', analyse example_runtime (lit ''abcdefg''))]"]
  by (simp add: invalid_number_def invalid_isPalindrome_def satisfies_def store_values_def
        length_f_analyse example_runtime_def decimalNumber_def isDigit_def lit_def)

section \<open>Properties of the natural-language query\<close>

lemma includes_str_sublist: "includes_str s t = sublist t s"
  by (induction s) (auto simp: sublist_Cons_right)

lemma regex_search_None:
  "(regex_search pat s = None) = (\<forall>suf. suffix suf s \<longrightarrow> pat suf = None)"
  by (induction s) (auto simp: suffix_Cons split: option.splits)

lemma regex_search_Some:
  "regex_search pat s = Some m \<Longrightarrow>
   \<exists>pre suf. s = pre @ suf \<and> pat suf = Some m \<and>
     (\<forall>pre' suf'. s = pre' @ suf' \<and> length pre' < length pre \<longrightarrow> pat suf' = None)"
proof (induction s)
  case Nil
  then show ?case by simp
next
  case (Cons c cs)
  show ?case
  proof (cases "pat (c # cs)")
    case (Some m')
    with Cons.prems have "pat (c # cs) = Some m" by simp
    then show ?thesis by (intro exI [of _ "[]"] exI [of _ "c # cs"]) simp
  next
    case None
    with Cons.prems have "regex_search pat cs = Some m" by simp
    from Cons.IH [OF this] obtain pre suf where ps: "cs = pre @ suf" "pat suf = Some m"
      "\<forall>pre' suf'. cs = pre' @ suf' \<and> length pre' < length pre \<longrightarrow> pat suf' = None"
      by blast
    have "\<forall>pre' suf'. c # cs = pre' @ suf' \<and> length pre' < length (c # pre) \<longrightarrow> pat suf' = None"
    proof (intro allI impI)
      fix pre' suf'
      assume a: "c # cs = pre' @ suf' \<and> length pre' < length (c # pre)"
      show "pat suf' = None"
      proof (cases pre')
        case Nil
        with a None show ?thesis by simp
      next
        case (Cons x pre'')
        with a have "cs = pre'' @ suf' \<and> length pre'' < length pre" by simp
        with ps(3) show ?thesis by blast
      qed
    qed
    with ps(1,2) show ?thesis
      by (intro exI [of _ "c # pre"] exI [of _ suf]) simp
  qed
qed

lemma digits_after_Some:
  "(digits_after p s = Some ds) =
     (\<exists>post. s = p @ ds @ post \<and> ds \<noteq> [] \<and> (\<forall>d\<in>set ds. isDigit d) \<and>
        (post = [] \<or> \<not> isDigit (hd post)))"
proof
  assume a: "digits_after p s = Some ds"
  then have p: "prefix p s" and ds: "ds = takeWhile isDigit (drop (length p) s)" "ds \<noteq> []"
    by (auto simp: digits_after_def Let_def split: if_splits)
  let ?post = "dropWhile isDigit (drop (length p) s)"
  from p have "s = p @ drop (length p) s" by (auto simp: prefix_def)
  then have "s = p @ ds @ ?post" using ds(1) by simp
  moreover have "\<forall>d\<in>set ds. isDigit d" using ds(1) by (auto dest: set_takeWhileD)
  moreover have "?post = [] \<or> \<not> isDigit (hd ?post)" using hd_dropWhile by blast
  ultimately show "\<exists>post. s = p @ ds @ post \<and> ds \<noteq> [] \<and> (\<forall>d\<in>set ds. isDigit d) \<and>
        (post = [] \<or> \<not> isDigit (hd post))" using ds(2) by blast
next
  assume "\<exists>post. s = p @ ds @ post \<and> ds \<noteq> [] \<and> (\<forall>d\<in>set ds. isDigit d) \<and>
        (post = [] \<or> \<not> isDigit (hd post))"
  then obtain post where s: "s = p @ ds @ post" and ds: "ds \<noteq> []" "\<forall>d\<in>set ds. isDigit d"
    and post: "post = [] \<or> \<not> isDigit (hd post)" by blast
  have "takeWhile isDigit (ds @ post) = ds"
    using ds(2) post by (cases post) simp_all
  then show "digits_after p s = Some ds"
    using s ds(1) by (simp add: digits_after_def Let_def)
qed

lemma digits_after_None:
  "(digits_after p s = None) = (\<not> (\<exists>d post. s = p @ d # post \<and> isDigit d))"
proof -
  have "(digits_after p s \<noteq> None) = (\<exists>d post. s = p @ d # post \<and> isDigit d)"
  proof
    assume "digits_after p s \<noteq> None"
    then obtain ds where "digits_after p s = Some ds" by auto
    then obtain post where "s = p @ ds @ post" "ds \<noteq> []" "\<forall>d\<in>set ds. isDigit d"
      unfolding digits_after_Some by blast
    then show "\<exists>d post. s = p @ d # post \<and> isDigit d"
      by (cases ds) auto
  next
    assume "\<exists>d post. s = p @ d # post \<and> isDigit d"
    then show "digits_after p s \<noteq> None"
      by (auto simp: digits_after_def Let_def)
  qed
  then show ?thesis by blast
qed

lemma digits_template_recognised:
  "(regex_search (digits_after p) s \<noteq> None) =
     (\<exists>pre d post. s = pre @ p @ d # post \<and> isDigit d)"
proof -
  have "(regex_search (digits_after p) s \<noteq> None) =
        (\<exists>suf. suffix suf s \<and> (\<exists>d post. suf = p @ d # post \<and> isDigit d))"
    by (simp add: regex_search_None digits_after_None)
  also have "\<dots> = (\<exists>pre d post. s = pre @ p @ d # post \<and> isDigit d)"
    by (auto simp: suffix_def) 
  finally show ?thesis .
qed

lemma digits_template_group:
  assumes "regex_search (digits_after p) s = Some ds"
  shows "\<exists>pre post. s = pre @ p @ ds @ post \<and> ds \<noteq> [] \<and> (\<forall>d\<in>set ds. isDigit d) \<and>
           (post = [] \<or> \<not> isDigit (hd post)) \<and>
           (\<forall>pre' suf'. s = pre' @ suf' \<and> length pre' < length pre \<longrightarrow>
              digits_after p suf' = None)"
proof -
  from regex_search_Some [OF assms] obtain pre suf where
    ps: "s = pre @ suf" "digits_after p suf = Some ds"
    "\<forall>pre' suf'. s = pre' @ suf' \<and> length pre' < length pre \<longrightarrow> digits_after p suf' = None"
    by blast
  from ps(2) obtain post where "suf = p @ ds @ post" "ds \<noteq> []" "\<forall>d\<in>set ds. isDigit d"
    "post = [] \<or> \<not> isDigit (hd post)"
    unfolding digits_after_Some by blast
  with ps(1,3) show ?thesis by blast
qed

lemma contains_at_Some:
  assumes "contains_at s = Some tok"
  shows "tok \<noteq> [] \<and> (\<forall>c\<in>set tok. isTokenUnit c) \<and>
     (\<exists>head q post. s = head @ q @ tok @ post \<and>
        map canonicalize head = map canonicalize (lit ''contains '') \<and>
        (q = [] \<or> (\<exists>c. q = [c] \<and> isQuote c)) \<and>
        (post = [] \<or> \<not> isTokenUnit (hd post)))"
proof -
  let ?p = "lit ''contains ''"
  let ?head = "take (length ?p) s"
  let ?rest = "drop (length ?p) s"
  let ?quoted = "case ?rest of [] \<Rightarrow> [] | c # cs \<Rightarrow> if isQuote c then takeWhile isTokenUnit cs else []"
  from assms have h: "map canonicalize ?head = map canonicalize ?p"
    and t: "tok = (if ?quoted \<noteq> [] then ?quoted else takeWhile isTokenUnit ?rest)" "tok \<noteq> []"
    by (auto simp: contains_at_def Let_def split: if_splits)
  have s: "s = ?head @ ?rest" by simp
  show ?thesis
  proof (cases "?quoted \<noteq> []")
    case True
    then obtain c cs where r: "?rest = c # cs" "isQuote c" "tok = takeWhile isTokenUnit cs"
      using t(1) by (auto split: list.splits if_splits)
    have "s = ?head @ [c] @ tok @ dropWhile isTokenUnit cs"
      using s r by simp
    moreover have "dropWhile isTokenUnit cs = [] \<or> \<not> isTokenUnit (hd (dropWhile isTokenUnit cs))"
      using hd_dropWhile by blast
    moreover have "\<forall>c\<in>set tok. isTokenUnit c" using r(3) by (auto dest: set_takeWhileD)
    ultimately show ?thesis using h t(2) r(2) by blast
  next
    case False
    with t(1) have tk: "tok = takeWhile isTokenUnit ?rest" by simp
    have "s = ?head @ [] @ tok @ dropWhile isTokenUnit ?rest"
      using s tk by simp
    moreover have "dropWhile isTokenUnit ?rest = [] \<or> \<not> isTokenUnit (hd (dropWhile isTokenUnit ?rest))"
      using hd_dropWhile by blast
    moreover have "\<forall>c\<in>set tok. isTokenUnit c" using tk by (auto dest: set_takeWhileD)
    ultimately show ?thesis using h t(2) by blast
  qed
qed

text \<open>
  Claim C4. The natural-language handler tries its templates in order and the first one
  that matches decides alone: \<open>palind\<close> selects the palindromes; else
  \<open>single word\<close> or \<open>single-word\<close> selects word count 1; else \<open>longer than N\<close>
  selects length above \<open>N\<close> (422 when \<open>N\<close> is not finite); else \<open>shorter than N\<close>
  selects length below \<open>N\<close>; else \<open>contains token\<close> selects the records whose
  lower-cased string contains the lower-cased token; else the answer is 400, could not
  interpret. A missing or empty \<open>q\<close> is answered 400 before any template is tried.
\<close>

theorem interpret_first_match:
  "(query ''q'' = None \<or> query ''q'' = Some [] \<longrightarrow>
      get_strings_query rt query st =
        (json_error 400 (''Missing query parameter 'q'' @ [CHR 0x27]), st)) \<and>
   (\<forall>q. query ''q'' = Some q \<and> q \<noteq> [] \<longrightarrow>
      (let lower = toLowerCase rt q;
           results = store_values st;
           palind = includes_str lower (lit ''palind'');
           single = (includes_str lower (lit ''single word'') \<or>
                     includes_str lower (lit ''single-word''))
       in (palind \<longrightarrow>
             get_strings_query rt query st =
               (json_list (filter (\<lambda>r. isPalindrome r) results), st)) \<and>
          (\<not> palind \<and> single \<longrightarrow>
             get_strings_query rt query st =
               (json_list (filter (\<lambda>r. wordCount r = 1) results), st)) \<and>
          (\<forall>ds n. \<not> palind \<and> \<not> single \<and> match_longer lower = Some ds \<and>
                  Number rt ds = Finite n \<longrightarrow>
             get_strings_query rt query st =
               (json_list (filter (\<lambda>r. of_nat (length_f r) > n) results), st)) \<and>
          (\<forall>ds. \<not> palind \<and> \<not> single \<and> match_longer lower = Some ds \<and>
                \<not> isFinite (Number rt ds) \<longrightarrow>
             get_strings_query rt query st = (json_error 422 ''Invalid number in query'', st)) \<and>
          (\<forall>ds n. \<not> palind \<and> \<not> single \<and> match_longer lower = None \<and>
                  match_shorter lower = Some ds \<and> Number rt ds = Finite n \<longrightarrow>
             get_strings_query rt query st =
               (json_list (filter (\<lambda>r. of_nat (length_f r) < n) results), st)) \<and>
          (\<forall>ds. \<not> palind \<and> \<not> single \<and> match_longer lower = None \<and>
                match_shorter lower = Some ds \<and> \<not> isFinite (Number rt ds) \<longrightarrow>
             get_strings_query rt query st = (json_error 422 ''Invalid number in query'', st)) \<and>
          (\<forall>tok. \<not> palind \<and> \<not> single \<and> match_longer lower = None \<and>
                 match_shorter lower = None \<and> match_contains lower = Some tok \<longrightarrow>
             get_strings_query rt query st =
               (json_list (filter (\<lambda>r. includes_str (toLowerCase rt (string_f r))
                                                     (toLowerCase rt tok)) results), st)) \<and>
          (\<not> palind \<and> \<not> single \<and> match_longer lower = None \<and>
           match_shorter lower = None \<and> match_contains lower = None \<longrightarrow>
             get_strings_query rt query st = (json_error 400 ''Could not interpret query'', st))))"
  by (auto simp: get_strings_query_def Let_def split: jsnum.splits)

end
